theory Spec2Isabelle
  imports Complex_Main
begin

section \<open>Values exchanged with the front-end\<close>

text \<open>
  \<^verbatim>\<open>kernel.py\<close> builds its replies and message contents as Python dictionaries of
  strings, numbers, lists and dictionaries. A dictionary is kept as an association list
  in insertion order; the kernel never writes a key twice.
\<close>

datatype pyval =
    PyNone
  | PyBool bool
  | PyInt int
  | PyFloat rat
  | PyStr string
  | PyList "pyval list"
  | PyDict "(string \<times> pyval) list"

text \<open>Python's truth value of an object, as used by \<^verbatim>\<open>if self.magics.quit_early:\<close>.\<close>

fun truthy :: "pyval \<Rightarrow> bool" where
  "truthy PyNone = False"
| "truthy (PyBool b) = b"
| "truthy (PyInt n) = (n \<noteq> 0)"
| "truthy (PyFloat x) = (x \<noteq> 0)"
| "truthy (PyStr s) = (s \<noteq> [])"
| "truthy (PyList xs) = (xs \<noteq> [])"
| "truthy (PyDict kvs) = (kvs \<noteq> [])"

datatype error = ValueError | KeyError | OSError | ParseError | UnidentifiedImageError

text \<open>
  What \<^verbatim>\<open>kernel.py\<close> uses from outside the repository, as parameters:
  \<open>builtin_int\<close> is Python's \<^verbatim>\<open>int\<close> on a string (\<open>None\<close> when it raises
  \<^verbatim>\<open>ValueError\<close>), \<open>str_strip\<close> is \<^verbatim>\<open>str.strip\<close>, \<open>dedent\<close> is
  \<^verbatim>\<open>textwrap.dedent\<close>; \<open>open_read_text\<close> and \<open>open_read_bytes\<close> open a path and
  read it whole (as UTF-8 text, as bytes); \<open>ET_root_attrib\<close> parses XML and gives the
  root element's attributes; \<open>Image_open_size\<close> is the \<^verbatim>\<open>size\<close> of PIL's
  \<^verbatim>\<open>Image.open\<close>; \<open>b64encode\<close> is \<^verbatim>\<open>base64.b64encode\<close> decoded as UTF-8.
  Each of those that can raise returns the error instead.
\<close>

record pylib =
  builtin_int :: "string \<Rightarrow> int option"
  str_strip :: "string \<Rightarrow> string"
  dedent :: "string \<Rightarrow> string"
  open_read_text :: "string \<Rightarrow> error + string"
  open_read_bytes :: "string \<Rightarrow> error + string"
  ET_root_attrib :: "string \<Rightarrow> error + (string \<times> string) list"
  Image_open_size :: "string \<Rightarrow> error + int \<times> int"
  platform_system :: string
  b64encode :: "string \<Rightarrow> string"

text \<open>\<^verbatim>\<open>s.endswith(suf)\<close>\<close>

definition endswith :: "string \<Rightarrow> string \<Rightarrow> bool" where
  "endswith s suf = (length suf \<le> length s \<and> drop (length s - length suf) s = suf)"

section \<open>The kernel object and its collaborators\<close>

text \<open>
  The repository's \<^verbatim>\<open>CodeManager\<close>, \<^verbatim>\<open>StataSession\<close>, \<^verbatim>\<open>StataMagics\<close>,
  \<^verbatim>\<open>CompletionsManager\<close> and \<^verbatim>\<open>Config\<close> are used by \<^verbatim>\<open>kernel.py\<close> only through
  calls and attribute reads. Every call the kernel's own methods make is appended to a
  log, in the order the source makes it, so that statements about which calls happen
  (and which do not) can be written down.

  An omitted optional argument is \<open>None\<close>: \<^verbatim>\<open>CodeManager("di ...")\<close> passes no
  delimiter mode, \<^verbatim>\<open>CodeManager(code, self.sc_delimit_mode)\<close> passes one; the session's
  \<^verbatim>\<open>do\<close> is called without \<^verbatim>\<open>display\<close> for the user's block and with
  \<^verbatim>\<open>display=False\<close> for the probe.
\<close>

datatype ('cm, 'p) call =
    Send_response string pyval
  | New_CodeManager string "bool option"
  | Get_text 'cm
  | Stata_do 'p "bool option"
  | Magic string
  | Magics_post
  | Completions_refresh

text \<open>
  The fields of \<^verbatim>\<open>StataKernel\<close> that \<^verbatim>\<open>kernel.py\<close> itself reads or writes.
  \<open>linesize\<close> is \<^verbatim>\<open>self.stata.linesize\<close>, which the session reads and
  \<^verbatim>\<open>post_do_hook\<close> assigns; \<open>execution_count\<close> is kept by the base class.
  \<open>world\<close> is everything the collaborators own (the session, the magics with their
  \<^verbatim>\<open>quit_early\<close>, the completions index, the configuration); the kernel's methods never
  look inside it.
\<close>

record ('w, 'cm, 'p) kernel =
  sc_delimit_mode :: bool
  execution_count :: int
  linesize :: int
  world :: 'w
  calls :: "('cm, 'p) call list"

text \<open>
  The collaborators, as parameters. Each one that receives the kernel object
  (\<^verbatim>\<open>self\<close>) may read all of it and returns its own new state: a collaborator writes
  only what it owns, and it returns (the session's \<^verbatim>\<open>do\<close> gives a return code and the
  captured text).
\<close>

record ('w, 'cm, 'p) collab =
  CodeManager :: "string \<Rightarrow> bool option \<Rightarrow> 'cm"
  cm_is_complete :: "'cm \<Rightarrow> bool"
  cm_ends_sc :: "'cm \<Rightarrow> bool"
  cm_get_text :: "'cm \<Rightarrow> 'w \<Rightarrow> 'p"
  magics_magic :: "string \<Rightarrow> ('w, 'cm, 'p) kernel \<Rightarrow> string \<times> 'w"
  magics_quit_early :: "'w \<Rightarrow> pyval"
  magics_post :: "('w, 'cm, 'p) kernel \<Rightarrow> 'w"
  stata_do :: "'p \<Rightarrow> bool option \<Rightarrow> ('w, 'cm, 'p) kernel \<Rightarrow> (int \<times> string) \<times> 'w"
  completions_refresh :: "('w, 'cm, 'p) kernel \<Rightarrow> 'w"

definition log_call :: "('cm, 'p) call \<Rightarrow> ('w, 'cm, 'p) kernel \<Rightarrow> ('w, 'cm, 'p) kernel" where
  "log_call ev k = k\<lparr>calls := calls k @ [ev]\<rparr>"

text \<open>\<^verbatim>\<open>self.send_response(self.iopub_socket, msg_type, content)\<close> of the base class.\<close>

definition send_response ::
  "string \<Rightarrow> pyval \<Rightarrow> ('w, 'cm, 'p) kernel \<Rightarrow> ('w, 'cm, 'p) kernel" where
  "send_response msg_type content k = log_call (Send_response msg_type content) k"

subsection \<open>\<^verbatim>\<open>__init__\<close>\<close>

text \<open>
  The constructor first copies two syntax-highlighting files (file system only; if that
  part raises, no kernel is constructed) and runs the base class's constructor, which
  starts \<open>execution_count\<close> at 0. It then sets \<^verbatim>\<open>self.sc_delimit_mode = False\<close> and
  builds the collaborators; \<open>w\<close> is their state once built and \<open>ls\<close> the line size the
  new session starts with. \<^verbatim>\<open>graph_formats\<close>, \<^verbatim>\<open>banner\<close> and
  \<^verbatim>\<open>language_version\<close> are read by none of the methods below.
\<close>

definition init :: "'w \<Rightarrow> int \<Rightarrow> ('w, 'cm, 'p) kernel" where
  "init w ls =
     \<lparr>sc_delimit_mode = False, execution_count = 0, linesize = ls, world = w, calls = []\<rparr>"

subsection \<open>\<^verbatim>\<open>is_complete\<close> and \<^verbatim>\<open>do_is_complete\<close>\<close>

text \<open>\<^verbatim>\<open>return CodeManager(code, self.sc_delimit_mode).is_complete\<close>\<close>

definition is_complete ::
  "('w, 'cm, 'p) collab \<Rightarrow> string \<Rightarrow> ('w, 'cm, 'p) kernel \<Rightarrow> bool \<times> ('w, 'cm, 'p) kernel" where
  "is_complete c code k =
     (let cm = CodeManager c code (Some (sc_delimit_mode k));
          k1 = log_call (New_CodeManager code (Some (sc_delimit_mode k))) k
      in (cm_is_complete c cm, k1))"

definition do_is_complete ::
  "('w, 'cm, 'p) collab \<Rightarrow> string \<Rightarrow> ('w, 'cm, 'p) kernel \<Rightarrow> pyval \<times> ('w, 'cm, 'p) kernel" where
  "do_is_complete c code k =
     (let (complete, k1) = is_complete c code k
      in if complete then (PyDict [(''status'', PyStr ''complete'')], k1)
         else (PyDict [(''status'', PyStr ''incomplete''), (''indent'', PyStr ''    '')], k1))"

subsection \<open>\<^verbatim>\<open>post_do_hook\<close>\<close>

definition linesize_probe :: string where
  "linesize_probe = ''di `c(linesize)'' @ [CHR 0x27]"

definition post_do_hook ::
  "pylib \<Rightarrow> ('w, 'cm, 'p) collab \<Rightarrow> ('w, 'cm, 'p) kernel
     \<Rightarrow> (error + unit) \<times> ('w, 'cm, 'p) kernel" where
  "post_do_hook lib c k =
     (let cm = CodeManager c linesize_probe None;
          k1 = log_call (New_CodeManager linesize_probe None) k;
          p = cm_get_text c cm (world k1);
          k2 = log_call (Get_text cm) k1;
          ((rc, res), w) = stata_do c p (Some False) k2;
          k3 = log_call (Stata_do p (Some False)) (k2\<lparr>world := w\<rparr>)
      in if rc = 0 then
           (case builtin_int lib (str_strip lib res) of
              None \<Rightarrow> (Inl ValueError, k3)
            | Some n \<Rightarrow>
                let k4 = k3\<lparr>linesize := n\<rparr>
                in (Inr (), log_call Completions_refresh (k4\<lparr>world := completions_refresh c k4\<rparr>)))
         else (Inr (), log_call Completions_refresh (k3\<lparr>world := completions_refresh c k3\<rparr>)))"

subsection \<open>\<^verbatim>\<open>do_execute\<close>\<close>

definition invalid_input_msg :: string where
  "invalid_input_msg =
     ''        stata_kernel error: code entered was incomplete.\<newline>'' @
     ''\<newline>'' @
     ''        This usually means that a loop or program was not correctly terminated.\<newline>'' @
     ''        This can also happen if you are in `#delimit ;` mode and did not end the\<newline>'' @
     ''        command with `;`. Use `%delimit` to see the current delimiter mode.\<newline>'' @
     ''        ''"

definition delimiter_notice :: "bool \<Rightarrow> pyval" where
  "delimiter_notice ends =
     PyDict [(''text'', PyStr (''delimiter now '' @ (if ends then '';'' else ''cr''))),
             (''name'', PyStr ''stdout'')]"

definition return_obj :: "int \<Rightarrow> int \<Rightarrow> pyval" where
  "return_obj count rc =
     (if rc \<noteq> 0 then PyDict [(''execution_count'', PyInt count), (''status'', PyStr ''error'')]
      else PyDict [(''execution_count'', PyInt count), (''status'', PyStr ''ok''),
                   (''payload'', PyList []), (''user_expressions'', PyDict [])])"

text \<open>
  The parameters \<^verbatim>\<open>store_history\<close>, \<^verbatim>\<open>user_expressions\<close> and \<^verbatim>\<open>allow_stdin\<close> are
  never read by the source and are left out. An exception leaves the kernel as it was
  when raised, so the kernel is returned beside the result in every case.
\<close>

definition do_execute ::
  "pylib \<Rightarrow> ('w, 'cm, 'p) collab \<Rightarrow> string \<Rightarrow> bool \<Rightarrow> ('w, 'cm, 'p) kernel
     \<Rightarrow> (error + pyval) \<times> ('w, 'cm, 'p) kernel" where
  "do_execute lib c code silent k =
     (let (complete, k1) = is_complete c code k
      in if \<not> complete then
           let k2 = send_response ''stream''
                      (PyDict [(''text'', PyStr (dedent lib invalid_input_msg)),
                               (''name'', PyStr ''stderr'')]) k1
           in (Inr (PyDict [(''status'', PyStr ''error''),
                            (''execution_count'', PyInt (execution_count k2))]), k2)
         else
           let (code', w) = magics_magic c code k1;
               k2 = log_call (Magic code) (k1\<lparr>world := w\<rparr>)
           in if truthy (magics_quit_early c (world k2))
              then (Inr (magics_quit_early c (world k2)), k2)
              else
                let cm = CodeManager c code' (Some (sc_delimit_mode k2));
                    k3 = log_call (New_CodeManager code' (Some (sc_delimit_mode k2))) k2;
                    p = cm_get_text c cm (world k3);
                    k4 = log_call (Get_text cm) k3;
                    ((rc, res), w') = stata_do c p None k4;
                    k5 = log_call (Stata_do p None) (k4\<lparr>world := w'\<rparr>);
                    k6 = log_call Magics_post (k5\<lparr>world := magics_post c k5\<rparr>)
                in case post_do_hook lib c k6 of
                     (Inl e, k7) \<Rightarrow> (Inl e, k7)
                   | (Inr u, k7) \<Rightarrow>
                       let k8 = (if \<not> silent \<and> cm_ends_sc c cm \<noteq> sc_delimit_mode k7
                                 then send_response ''stream''
                                        (delimiter_notice (cm_ends_sc c cm)) k7
                                 else k7);
                           k9 = k8\<lparr>sc_delimit_mode := cm_ends_sc c cm\<rparr>
                       in (Inr (return_obj (execution_count k9) rc), k9))"

subsection \<open>\<^verbatim>\<open>send_image\<close>\<close>

definition no_display_msg :: string where
  "no_display_msg = ''This front-end cannot display the desired image type.''"

text \<open>\<^verbatim>\<open>int(root.attrib[key][:-2])\<close>: a missing key raises \<^verbatim>\<open>KeyError\<close>.\<close>

definition px_attrib :: "pylib \<Rightarrow> (string \<times> string) list \<Rightarrow> string \<Rightarrow> error + int" where
  "px_attrib lib attrib key =
     (case map_of attrib key of
        None \<Rightarrow> Inl KeyError
      | Some v \<Rightarrow>
          (case builtin_int lib (take (length v - 2) v) of
             None \<Rightarrow> Inl ValueError
           | Some n \<Rightarrow> Inr n))"

text \<open>
  On \<^verbatim>\<open>Darwin\<close> the PNG's width and height are halved with Python's true division,
  which makes them floats; they are kept as rationals here.
\<close>

definition send_image ::
  "pylib \<Rightarrow> string \<Rightarrow> ('w, 'cm, 'p) kernel \<Rightarrow> (error + unit) \<times> ('w, 'cm, 'p) kernel" where
  "send_image lib graph_path k =
     (if endswith graph_path ''.svg'' then
        (case open_read_text lib graph_path of
           Inl e \<Rightarrow> (Inl e, k)
         | Inr img \<Rightarrow>
        (case ET_root_attrib lib img of
           Inl e \<Rightarrow> (Inl e, k)
         | Inr attrib \<Rightarrow>
        (case px_attrib lib attrib ''width'' of
           Inl e \<Rightarrow> (Inl e, k)
         | Inr width \<Rightarrow>
        (case px_attrib lib attrib ''height'' of
           Inl e \<Rightarrow> (Inl e, k)
         | Inr height \<Rightarrow>
             (Inr (), send_response ''display_data''
                (PyDict
                  [(''data'', PyDict [(''text/plain'', PyStr no_display_msg),
                                      (''image/svg+xml'', PyStr img)]),
                   (''metadata'', PyDict [(''image/svg+xml'',
                       PyDict [(''width'', PyInt width), (''height'', PyInt height)])])])
                k)))))
      else if endswith graph_path ''.png'' then
        (case Image_open_size lib graph_path of
           Inl e \<Rightarrow> (Inl e, k)
         | Inr (w, h) \<Rightarrow>
             let (width, height) =
                   (if platform_system lib = ''Darwin''
                    then (PyFloat (of_int w / 2), PyFloat (of_int h / 2))
                    else (PyInt w, PyInt h))
             in (case open_read_bytes lib graph_path of
                   Inl e \<Rightarrow> (Inl e, k)
                 | Inr bytes \<Rightarrow>
                     (Inr (), send_response ''display_data''
                        (PyDict
                          [(''data'', PyDict [(''text/plain'', PyStr no_display_msg),
                                              (''image/png'', PyStr (b64encode lib bytes))]),
                           (''metadata'', PyDict [(''image/png'',
                               PyDict [(''width'', width), (''height'', height)])])])
                        k)))
      else if endswith graph_path ''.pdf'' then
        (case open_read_bytes lib graph_path of
           Inl e \<Rightarrow> (Inl e, k)
         | Inr bytes \<Rightarrow>
             (Inr (), send_response ''display_data''
                (PyDict
                  [(''data'', PyDict [(''text/plain'', PyStr no_display_msg),
                                      (''application/pdf'', PyStr (b64encode lib bytes))]),
                   (''metadata'', PyDict [])])
                k))
      else (Inr (), k))"

section \<open>Observations along \<^verbatim>\<open>do_execute\<close>\<close>

text \<open>
  Names for what \<^verbatim>\<open>do_execute\<close> has in hand at its successive lines, so that
  statements can speak of the splitter object, the session's return code and the kernel
  just before \<^verbatim>\<open>post_do_hook\<close>. Lemma \<open>do_execute_run\<close> below shows that they are
  the values \<^verbatim>\<open>do_execute\<close> computes.
\<close>

definition after_magic ::
  "('w, 'cm, 'p) collab \<Rightarrow> string \<Rightarrow> ('w, 'cm, 'p) kernel \<Rightarrow> string \<times> ('w, 'cm, 'p) kernel" where
  "after_magic c code k =
     (let k1 = snd (is_complete c code k);
          (code', w) = magics_magic c code k1
      in (code', log_call (Magic code) (k1\<lparr>world := w\<rparr>)))"

definition quit_early ::
  "('w, 'cm, 'p) collab \<Rightarrow> string \<Rightarrow> ('w, 'cm, 'p) kernel \<Rightarrow> pyval" where
  "quit_early c code k = magics_quit_early c (world (snd (after_magic c code k)))"

definition block_cm :: "('w, 'cm, 'p) collab \<Rightarrow> string \<Rightarrow> ('w, 'cm, 'p) kernel \<Rightarrow> 'cm" where
  "block_cm c code k = CodeManager c (fst (after_magic c code k)) (Some (sc_delimit_mode k))"

definition block_plan :: "('w, 'cm, 'p) collab \<Rightarrow> string \<Rightarrow> ('w, 'cm, 'p) kernel \<Rightarrow> 'p" where
  "block_plan c code k = cm_get_text c (block_cm c code k) (world (snd (after_magic c code k)))"

definition session_do ::
  "('w, 'cm, 'p) collab \<Rightarrow> string \<Rightarrow> ('w, 'cm, 'p) kernel
     \<Rightarrow> (int \<times> string) \<times> ('w, 'cm, 'p) kernel" where
  "session_do c code k =
     (let (code', k2) = after_magic c code k;
          k3 = log_call (New_CodeManager code' (Some (sc_delimit_mode k))) k2;
          k4 = log_call (Get_text (block_cm c code k)) k3;
          (r, w') = stata_do c (block_plan c code k) None k4
      in (r, log_call (Stata_do (block_plan c code k) None) (k4\<lparr>world := w'\<rparr>)))"

definition block_rc :: "('w, 'cm, 'p) collab \<Rightarrow> string \<Rightarrow> ('w, 'cm, 'p) kernel \<Rightarrow> int" where
  "block_rc c code k = fst (fst (session_do c code k))"

definition probe_plan :: "('w, 'cm, 'p) collab \<Rightarrow> ('w, 'cm, 'p) kernel \<Rightarrow> 'p" where
  "probe_plan c k = cm_get_text c (CodeManager c linesize_probe None) (world k)"

text \<open>What the session returns for the probe when \<^verbatim>\<open>post_do_hook\<close> starts from \<open>k\<close>.\<close>

definition probe_do :: "('w, 'cm, 'p) collab \<Rightarrow> ('w, 'cm, 'p) kernel \<Rightarrow> int \<times> string" where
  "probe_do c k =
     (let k1 = log_call (New_CodeManager linesize_probe None) k;
          k2 = log_call (Get_text (CodeManager c linesize_probe None)) k1
      in fst (stata_do c (probe_plan c k) (Some False) k2))"

text \<open>
  The probe is readable when it fails or when its text, stripped, is an integer for
  \<^verbatim>\<open>int\<close>. Then \<^verbatim>\<open>post_do_hook\<close> returns; otherwise \<^verbatim>\<open>int\<close> raises
  \<^verbatim>\<open>ValueError\<close> inside it (lemma \<open>post_do_hook_result\<close>).
\<close>

definition probe_readable ::
  "pylib \<Rightarrow> ('w, 'cm, 'p) collab \<Rightarrow> ('w, 'cm, 'p) kernel \<Rightarrow> bool" where
  "probe_readable lib c k =
     (fst (probe_do c k) \<noteq> 0 \<or> builtin_int lib (str_strip lib (snd (probe_do c k))) \<noteq> None)"

definition before_hook ::
  "('w, 'cm, 'p) collab \<Rightarrow> string \<Rightarrow> ('w, 'cm, 'p) kernel \<Rightarrow> ('w, 'cm, 'p) kernel" where
  "before_hook c code k =
     (let k5 = snd (session_do c code k)
      in log_call Magics_post (k5\<lparr>world := magics_post c k5\<rparr>))"

text \<open>The calls a method made: what it appended to the log of the kernel it started from.\<close>

definition new_calls ::
  "('w, 'cm, 'p) kernel \<Rightarrow> ('w, 'cm, 'p) kernel \<Rightarrow> ('cm, 'p) call list" where
  "new_calls k k' = drop (length (calls k)) (calls k')"

fun is_display_data :: "('cm, 'p) call \<Rightarrow> bool" where
  "is_display_data (Send_response msg_type content) = (msg_type = ''display_data'')"
| "is_display_data _ = False"

definition is_delimiter_notice :: "('cm, 'p) call \<Rightarrow> bool" where
  "is_delimiter_notice ev =
     (ev = Send_response ''stream''
             (PyDict [(''text'', PyStr ''delimiter now ;''), (''name'', PyStr ''stdout'')]) \<or>
      ev = Send_response ''stream''
             (PyDict [(''text'', PyStr ''delimiter now cr''), (''name'', PyStr ''stdout'')]))"

section \<open>Stand-ins for the collaborators\<close>

text \<open>
  A small concrete set of collaborators, enough to run the kernel's methods on concrete
  inputs. The splitter object is the pair of the code and the mode it starts in; a block
  is complete unless it ends in an opening brace; the only magics are blocks starting
  with a percent sign; a block starting with a \<^verbatim>\<open>#delimit\<close> directive ends in the mode
  it names; the session fails on a plan ending in \<^verbatim>\<open>error 198\<close> and answers the
  line-size probe with \<^verbatim>\<open> 80\<close>.
\<close>

fun digit_of :: "char \<Rightarrow> int option" where
  "digit_of ch =
     (let n = (of_char ch :: nat)
      in if 48 \<le> n \<and> n \<le> 57 then Some (int n - 48) else None)"

fun dec_digits :: "int \<Rightarrow> string \<Rightarrow> int option" where
  "dec_digits acc [] = Some acc"
| "dec_digits acc (ch # cs) =
     (case digit_of ch of None \<Rightarrow> None | Some d \<Rightarrow> dec_digits (10 * acc + d) cs)"

definition dec_int :: "string \<Rightarrow> int option" where
  "dec_int s = (if s = [] then None else dec_digits 0 s)"

definition strip_blanks :: "string \<Rightarrow> string" where
  "strip_blanks s =
     rev (dropWhile (\<lambda>ch. ch = CHR '' '') (rev (dropWhile (\<lambda>ch. ch = CHR '' '') s)))"

text \<open>
  Stand-ins for the library: \<^verbatim>\<open>int\<close> reads plain decimal digits, \<^verbatim>\<open>strip\<close> removes
  blanks at both ends, the only files are one SVG and one PDF.
\<close>

definition demo_lib :: pylib where
  "demo_lib =
     \<lparr>builtin_int = dec_int,
      str_strip = strip_blanks,
      dedent = (\<lambda>s. s),
      open_read_text = (\<lambda>path. if path = ''graph0.svg'' then Inr ''<svg/>'' else Inl OSError),
      open_read_bytes = (\<lambda>path. if path = ''graph1.pdf'' then Inr ''%PDF'' else Inl OSError),
      ET_root_attrib = (\<lambda>xml. if xml = ''<svg/>''
                              then Inr [(''width'', ''600px''), (''height'', ''436px'')]
                              else Inl ParseError),
      Image_open_size = (\<lambda>path. Inl UnidentifiedImageError),
      platform_system = ''Linux'',
      b64encode = (\<lambda>bytes. ''JVBERg=='')\<rparr>"

definition demo :: "(pyval, string \<times> bool, string) collab" where
  "demo =
     \<lparr>CodeManager = (\<lambda>code mode. (code, case mode of None \<Rightarrow> False | Some m \<Rightarrow> m)),
      cm_is_complete = (\<lambda>(code, m). code = [] \<or> last code \<noteq> CHR ''{''),
      cm_ends_sc = (\<lambda>(code, m). if take 10 code = ''#delimit ;'' then True
                               else if take 11 code = ''#delimit cr'' then False else m),
      cm_get_text = (\<lambda>(code, m) w. code),
      magics_magic = (\<lambda>code k.
         if take 1 code = ''%''
         then ([], PyDict [(''execution_count'', PyInt (execution_count k)),
                           (''status'', PyStr ''ok'')])
         else (code, PyNone)),
      magics_quit_early = (\<lambda>w. w),
      magics_post = world,
      stata_do = (\<lambda>p d k.
         if endswith p ''error 198'' \<or> endswith p ''error 198;'' then ((198, []), world k)
         else if p = linesize_probe then ((0, '' 80''), world k)
         else ((0, []), world k)),
      completions_refresh = world\<rparr>"

text \<open>The same collaborators with a session that always succeeds and captures no text.\<close>

definition demo_mute :: "(pyval, string \<times> bool, string) collab" where
  "demo_mute = demo\<lparr>stata_do := (\<lambda>p d k. ((0, []), world k))\<rparr>"

definition demo_kernel :: "(pyval, string \<times> bool, string) kernel" where
  "demo_kernel = (init PyNone 255)\<lparr>execution_count := 1\<rparr>"

section \<open>The completeness checker, from the specification\<close>





















section \<open>The paths through \<^verbatim>\<open>do_execute\<close>\<close>

lemma is_complete_fst:
  "fst (is_complete c code k) = cm_is_complete c (CodeManager c code (Some (sc_delimit_mode k)))"
  by (simp add: is_complete_def Let_def)

lemma is_complete_snd:
  "snd (is_complete c code k) = log_call (New_CodeManager code (Some (sc_delimit_mode k))) k"
  by (simp add: is_complete_def Let_def)

lemma log_call_fields [simp]:
  "sc_delimit_mode (log_call ev k) = sc_delimit_mode k"
  "execution_count (log_call ev k) = execution_count k"
  "linesize (log_call ev k) = linesize k"
  "world (log_call ev k) = world k"
  "calls (log_call ev k) = calls k @ [ev]"
  by (simp_all add: log_call_def)

lemma do_execute_incomplete:
  assumes "\<not> fst (is_complete c code k)"
  shows "do_execute lib c code silent k =
           (Inr (PyDict [(''status'', PyStr ''error''),
                         (''execution_count'', PyInt (execution_count k))]),
            send_response ''stream''
              (PyDict [(''text'', PyStr (dedent lib invalid_input_msg)),
                       (''name'', PyStr ''stderr'')])
              (log_call (New_CodeManager code (Some (sc_delimit_mode k))) k))"
  using assms
  by (simp add: do_execute_def is_complete_def Let_def send_response_def)

lemma after_magic_fields:
  "sc_delimit_mode (snd (after_magic c code k)) = sc_delimit_mode k"
  "execution_count (snd (after_magic c code k)) = execution_count k"
  "linesize (snd (after_magic c code k)) = linesize k"
  "calls (snd (after_magic c code k)) =
     calls k @ [New_CodeManager code (Some (sc_delimit_mode k)), Magic code]"
  by (simp_all add: after_magic_def is_complete_snd Let_def case_prod_beta)

lemma do_execute_quit:
  assumes "fst (is_complete c code k)" and "truthy (quit_early c code k)"
  shows "do_execute lib c code silent k =
           (Inr (quit_early c code k), snd (after_magic c code k))"
  using assms
  by (simp add: do_execute_def quit_early_def after_magic_def is_complete_def Let_def
           case_prod_beta)

lemma session_do_fields:
  "sc_delimit_mode (snd (session_do c code k)) = sc_delimit_mode k"
  "execution_count (snd (session_do c code k)) = execution_count k"
  "linesize (snd (session_do c code k)) = linesize k"
  "calls (snd (session_do c code k)) =
     calls k @ [New_CodeManager code (Some (sc_delimit_mode k)), Magic code,
                New_CodeManager (fst (after_magic c code k)) (Some (sc_delimit_mode k)),
                Get_text (block_cm c code k), Stata_do (block_plan c code k) None]"
  by (simp_all add: session_do_def Let_def case_prod_beta after_magic_fields)

lemma before_hook_fields:
  "sc_delimit_mode (before_hook c code k) = sc_delimit_mode k"
  "execution_count (before_hook c code k) = execution_count k"
  "linesize (before_hook c code k) = linesize k"
  "calls (before_hook c code k) =
     calls k @ [New_CodeManager code (Some (sc_delimit_mode k)), Magic code,
                New_CodeManager (fst (after_magic c code k)) (Some (sc_delimit_mode k)),
                Get_text (block_cm c code k), Stata_do (block_plan c code k) None,
                Magics_post]"
  by (simp_all add: before_hook_def Let_def session_do_fields)

lemma post_do_hook_fields:
  "sc_delimit_mode (snd (post_do_hook lib c k)) = sc_delimit_mode k"
  "execution_count (snd (post_do_hook lib c k)) = execution_count k"
  by (simp_all add: post_do_hook_def Let_def case_prod_beta split: option.splits)

lemma post_do_hook_calls:
  "calls (snd (post_do_hook lib c k)) =
     calls k @ [New_CodeManager linesize_probe None,
                Get_text (CodeManager c linesize_probe None),
                Stata_do (probe_plan c k) (Some False)] @
     (case fst (post_do_hook lib c k) of Inl e \<Rightarrow> [] | Inr u \<Rightarrow> [Completions_refresh])"
  by (simp add: post_do_hook_def probe_plan_def Let_def case_prod_beta split: option.splits)

lemma post_do_hook_linesize:
  "linesize (snd (post_do_hook lib c k)) =
     (if fst (probe_do c k) = 0
      then (case builtin_int lib (str_strip lib (snd (probe_do c k))) of
              None \<Rightarrow> linesize k | Some n \<Rightarrow> n)
      else linesize k)"
  by (simp add: post_do_hook_def probe_do_def probe_plan_def Let_def case_prod_beta
           split: option.splits)

lemma post_do_hook_result:
  "fst (post_do_hook lib c k) =
     (if fst (probe_do c k) = 0 \<and> builtin_int lib (str_strip lib (snd (probe_do c k))) = None
      then Inl ValueError else Inr ())"
  by (simp add: post_do_hook_def probe_do_def probe_plan_def Let_def case_prod_beta
           split: option.splits)

lemma post_do_hook_returns:
  "probe_readable lib c k \<Longrightarrow> fst (post_do_hook lib c k) = Inr ()"
  by (auto simp: post_do_hook_result probe_readable_def)

lemma do_execute_run:
  assumes "fst (is_complete c code k)" and "\<not> truthy (quit_early c code k)"
  shows "do_execute lib c code silent k =
           (case post_do_hook lib c (before_hook c code k) of
              (Inl e, k7) \<Rightarrow> (Inl e, k7)
            | (Inr u, k7) \<Rightarrow>
                (Inr (return_obj (execution_count k7) (block_rc c code k)),
                 (if \<not> silent \<and> cm_ends_sc c (block_cm c code k) \<noteq> sc_delimit_mode k7
                  then send_response ''stream''
                         (delimiter_notice (cm_ends_sc c (block_cm c code k))) k7
                  else k7)\<lparr>sc_delimit_mode := cm_ends_sc c (block_cm c code k)\<rparr>))"
proof (cases "post_do_hook lib c (before_hook c code k)")
  case (Pair r k7)
  then show ?thesis
    using assms
    by (cases r)
       (simp_all add: do_execute_def quit_early_def after_magic_def is_complete_def Let_def
          before_hook_def session_do_def block_rc_def block_cm_def block_plan_def
          case_prod_beta send_response_def)
qed

lemma do_execute_raise:
  assumes "fst (is_complete c code k)" and "\<not> truthy (quit_early c code k)"
      and "fst (post_do_hook lib c (before_hook c code k)) = Inl e"
  shows "do_execute lib c code silent k = (Inl e, snd (post_do_hook lib c (before_hook c code k)))"
  using assms(3) by (simp add: do_execute_run [OF assms(1,2)] case_prod_beta)

lemma do_execute_return:
  assumes "fst (is_complete c code k)" and "\<not> truthy (quit_early c code k)"
      and "fst (post_do_hook lib c (before_hook c code k)) = Inr ()"
  shows "fst (do_execute lib c code silent k) =
           Inr (return_obj (execution_count k) (block_rc c code k))"
    and "sc_delimit_mode (snd (do_execute lib c code silent k)) = cm_ends_sc c (block_cm c code k)"
    and "linesize (snd (do_execute lib c code silent k)) =
           linesize (snd (post_do_hook lib c (before_hook c code k)))"
    and "calls (snd (do_execute lib c code silent k)) =
           calls k @
           [New_CodeManager code (Some (sc_delimit_mode k)), Magic code,
            New_CodeManager (fst (after_magic c code k)) (Some (sc_delimit_mode k)),
            Get_text (block_cm c code k), Stata_do (block_plan c code k) None,
            Magics_post,
            New_CodeManager linesize_probe None,
            Get_text (CodeManager c linesize_probe None),
            Stata_do (probe_plan c (before_hook c code k)) (Some False),
            Completions_refresh] @
           (if \<not> silent \<and> cm_ends_sc c (block_cm c code k) \<noteq> sc_delimit_mode k
            then [Send_response ''stream'' (delimiter_notice (cm_ends_sc c (block_cm c code k)))]
            else [])"
  using assms(3) post_do_hook_calls [of lib c "before_hook c code k"]
  by (simp_all add: do_execute_run [OF assms(1,2)] case_prod_beta post_do_hook_fields
        before_hook_fields send_response_def)

section \<open>The delimiter mode across an execution request\<close>

text \<open>
  C1 (as amended). The carried-forward delimiter mode is committed at the end of
  \<^verbatim>\<open>do_execute\<close>, after the round trip to the external engine and whatever its return
  code: for every call on complete input that no magic handles and whose line-size probe
  is readable, \<open>sc_delimit_mode\<close> afterwards is the \<^verbatim>\<open>ends_sc\<close> of the block's
  \<^verbatim>\<open>CodeManager\<close>. The statement has no condition on the return code: it covers a
  failed round trip as well as a successful one.
\<close>

theorem sc_delimit_mode_committed:
  assumes "fst (is_complete c code k)"
      and "\<not> truthy (quit_early c code k)"
      and "probe_readable lib c (before_hook c code k)"
  shows "sc_delimit_mode (snd (do_execute lib c code silent k)) =
           cm_ends_sc c (block_cm c code k)"
  using do_execute_return(2) [OF assms(1,2) post_do_hook_returns [OF assms(3)]] .

text \<open>
  A block that switches to \<^verbatim>\<open>#delimit ;\<close> and then fails in the session with return
  code 198: the mode is \<^verbatim>\<open>;\<close> afterwards.
\<close>

theorem sc_delimit_mode_committed_witness:
  "fst (is_complete demo ''#delimit ;\<newline>error 198;'' demo_kernel) \<and>
   \<not> truthy (quit_early demo ''#delimit ;\<newline>error 198;'' demo_kernel) \<and>
   probe_readable demo_lib demo
     (before_hook demo ''#delimit ;\<newline>error 198;'' demo_kernel) \<and>
   block_rc demo ''#delimit ;\<newline>error 198;'' demo_kernel = 198 \<and>
   cm_ends_sc demo (block_cm demo ''#delimit ;\<newline>error 198;'' demo_kernel) \<and>
   sc_delimit_mode (snd (do_execute demo_lib demo ''#delimit ;\<newline>error 198;''
                           False demo_kernel))"
proof -
  let ?blk = "''#delimit ;\<newline>error 198;''"
  have h1: "fst (is_complete demo ?blk demo_kernel)" by code_simp
  have h2: "\<not> truthy (quit_early demo ?blk demo_kernel)" by code_simp
  have h3: "probe_readable demo_lib demo (before_hook demo ?blk demo_kernel)" by code_simp
  have h4: "block_rc demo ?blk demo_kernel = 198" by code_simp
  have h5: "cm_ends_sc demo (block_cm demo ?blk demo_kernel)" by code_simp
  from sc_delimit_mode_committed [OF h1 h2 h3, of False] h1 h2 h3 h4 h5 show ?thesis by simp
qed

text \<open>
  The claim as first stated fails: here the block is complete, the session's return code
  is not zero, and the mode after the call is not the mode before it.
\<close>

theorem sc_delimit_mode_on_failure_counterexample:
  "fst (is_complete demo ''#delimit ;\<newline>error 198;'' demo_kernel) \<and>
   block_rc demo ''#delimit ;\<newline>error 198;'' demo_kernel \<noteq> 0 \<and>
   sc_delimit_mode (snd (do_execute demo_lib demo ''#delimit ;\<newline>error 198;''
                           False demo_kernel)) \<noteq> sc_delimit_mode demo_kernel"
  by code_simp

section \<open>Incomplete input\<close>

text \<open>
  C2 (as amended). For every code block for which \<^verbatim>\<open>is_complete(code)\<close> is false,
  \<^verbatim>\<open>do_execute\<close> returns, without raising, the status \<^verbatim>\<open>error\<close> with the current
  \<^verbatim>\<open>execution_count\<close>, and the calls it makes are exactly two: the construction of
  the one \<^verbatim>\<open>CodeManager\<close> that \<^verbatim>\<open>is_complete\<close> builds to obtain the verdict, and
  the sending of the textual hint on \<^verbatim>\<open>stderr\<close>. It makes no call of \<^verbatim>\<open>get_text\<close>
  and none of the external session.
\<close>

theorem incomplete_input_gate:
  assumes "\<not> fst (is_complete c code k)"
  shows "fst (do_execute lib c code silent k) =
           Inr (PyDict [(''status'', PyStr ''error''),
                        (''execution_count'', PyInt (execution_count k))]) \<and>
         new_calls k (snd (do_execute lib c code silent k)) =
           [New_CodeManager code (Some (sc_delimit_mode k)),
            Send_response ''stream''
              (PyDict [(''text'', PyStr (dedent lib invalid_input_msg)),
                       (''name'', PyStr ''stderr'')])]"
  by (simp add: do_execute_incomplete [OF assms] send_response_def new_calls_def)

theorem incomplete_input_gate_witness:
  "\<not> fst (is_complete demo ''foreach i in 1 2 {'' demo_kernel) \<and>
   fst (do_execute demo_lib demo ''foreach i in 1 2 {'' False demo_kernel) =
     Inr (PyDict [(''status'', PyStr ''error''), (''execution_count'', PyInt 1)]) \<and>
   new_calls demo_kernel (snd (do_execute demo_lib demo ''foreach i in 1 2 {'' False demo_kernel)) =
     [New_CodeManager ''foreach i in 1 2 {'' (Some False),
      Send_response ''stream''
        (PyDict [(''text'', PyStr invalid_input_msg), (''name'', PyStr ''stderr'')])]"
proof -
  have h: "\<not> fst (is_complete demo ''foreach i in 1 2 {'' demo_kernel)" by code_simp
  have m: "sc_delimit_mode demo_kernel = False" "execution_count demo_kernel = 1"
          "dedent demo_lib invalid_input_msg = invalid_input_msg"
    by (simp_all add: demo_kernel_def init_def demo_lib_def)
  from incomplete_input_gate [OF h, of demo_lib False] h m show ?thesis by simp
qed

text \<open>
  The claim as first stated (no \<^verbatim>\<open>CodeManager\<close> is constructed for a rejected block)
  fails: the completeness check itself constructs one.
\<close>

theorem gate_constructs_CodeManager_counterexample:
  "\<not> fst (is_complete demo ''foreach i in 1 2 {'' demo_kernel) \<and>
   New_CodeManager ''foreach i in 1 2 {'' (Some False)
     \<in> set (new_calls demo_kernel
              (snd (do_execute demo_lib demo ''foreach i in 1 2 {'' False demo_kernel)))"
  by code_simp

section \<open>The delimiter notice\<close>

text \<open>
  C3 (as amended). For every execution with \<^verbatim>\<open>silent\<close> false of a complete code block
  that no magic handles and whose line-size probe is readable: when the \<^verbatim>\<open>ends_sc\<close>
  of the block's \<^verbatim>\<open>CodeManager\<close> differs from \<open>sc_delimit_mode\<close> before the call,
  \<^verbatim>\<open>do_execute\<close> sends exactly one stdout notice, \<^verbatim>\<open>delimiter now ;\<close> or
  \<^verbatim>\<open>delimiter now cr\<close> according to the new mode; when they are equal it sends none;
  and in both cases \<^verbatim>\<open>ends_sc\<close> is the delimiter mode afterwards.
\<close>

theorem delimiter_notice_when_changed:
  assumes "fst (is_complete c code k)"
      and "\<not> truthy (quit_early c code k)"
      and "probe_readable lib c (before_hook c code k)"
      and "\<not> silent"
  shows "filter is_delimiter_notice (new_calls k (snd (do_execute lib c code silent k))) =
           (if cm_ends_sc c (block_cm c code k) \<noteq> sc_delimit_mode k
            then [Send_response ''stream''
                    (PyDict [(''text'', PyStr (if cm_ends_sc c (block_cm c code k)
                                               then ''delimiter now ;'' else ''delimiter now cr'')),
                             (''name'', PyStr ''stdout'')])]
            else []) \<and>
         sc_delimit_mode (snd (do_execute lib c code silent k)) = cm_ends_sc c (block_cm c code k)"
  using assms(4)
  by (simp add: do_execute_return(2,4) [OF assms(1,2) post_do_hook_returns [OF assms(3)]]
        new_calls_def is_delimiter_notice_def delimiter_notice_def)

theorem delimiter_notice_when_changed_witness:
  "fst (is_complete demo ''#delimit ;'' demo_kernel) \<and>
   \<not> truthy (quit_early demo ''#delimit ;'' demo_kernel) \<and>
   probe_readable demo_lib demo (before_hook demo ''#delimit ;'' demo_kernel) \<and>
   cm_ends_sc demo (block_cm demo ''#delimit ;'' demo_kernel) \<noteq> sc_delimit_mode demo_kernel \<and>
   filter is_delimiter_notice
     (new_calls demo_kernel (snd (do_execute demo_lib demo ''#delimit ;'' False demo_kernel))) =
     [Send_response ''stream''
        (PyDict [(''text'', PyStr ''delimiter now ;''), (''name'', PyStr ''stdout'')])] \<and>
   sc_delimit_mode (snd (do_execute demo_lib demo ''#delimit ;'' False demo_kernel))"
proof -
  let ?blk = "''#delimit ;''"
  have h1: "fst (is_complete demo ?blk demo_kernel)" by code_simp
  have h2: "\<not> truthy (quit_early demo ?blk demo_kernel)" by code_simp
  have h3: "probe_readable demo_lib demo (before_hook demo ?blk demo_kernel)" by code_simp
  have h4: "\<not> False" by simp
  have h5: "cm_ends_sc demo (block_cm demo ?blk demo_kernel)" by code_simp
  have h6: "\<not> sc_delimit_mode demo_kernel" by code_simp
  from delimiter_notice_when_changed [OF h1 h2 h3 h4] h1 h2 h3 h5 h6 show ?thesis by simp
qed

text \<open>
  The claim as first stated fails for a silent execution: the mode changes and no notice
  is sent.
\<close>

theorem silent_no_notice_counterexample:
  "fst (is_complete demo ''#delimit ;'' demo_kernel) \<and>
   cm_ends_sc demo (block_cm demo ''#delimit ;'' demo_kernel) \<noteq> sc_delimit_mode demo_kernel \<and>
   filter is_delimiter_notice
     (new_calls demo_kernel (snd (do_execute demo_lib demo ''#delimit ;'' True demo_kernel))) = []"
  by code_simp

section \<open>The completeness request\<close>

text \<open>
  C4. \<^verbatim>\<open>do_is_complete(code)\<close> returns \<^verbatim>\<open>{'status': 'complete'}\<close> exactly when
  \<^verbatim>\<open>is_complete(code)\<close> is true under the current delimiter mode, and otherwise
  \<^verbatim>\<open>{'status': 'incomplete', 'indent': '    '}\<close>, the indent being the constant
  string of four spaces whatever the input.
\<close>

theorem do_is_complete_status:
  "fst (do_is_complete c code k) =
     (if fst (is_complete c code k) then PyDict [(''status'', PyStr ''complete'')]
      else PyDict [(''status'', PyStr ''incomplete''), (''indent'', PyStr ''    '')])"
  by (simp add: do_is_complete_def case_prod_beta)

theorem do_is_complete_status_witness:
  "fst (is_complete demo ''di 1'' demo_kernel) \<and>
   fst (do_is_complete demo ''di 1'' demo_kernel) = PyDict [(''status'', PyStr ''complete'')] \<and>
   \<not> fst (is_complete demo ''foreach i in 1 2 {'' demo_kernel) \<and>
   fst (do_is_complete demo ''foreach i in 1 2 {'' demo_kernel) =
     PyDict [(''status'', PyStr ''incomplete''), (''indent'', PyStr ''    '')]"
proof -
  have h1: "fst (is_complete demo ''di 1'' demo_kernel)" by code_simp
  have h2: "\<not> fst (is_complete demo ''foreach i in 1 2 {'' demo_kernel)" by code_simp
  from do_is_complete_status [of demo "''di 1''" demo_kernel]
       do_is_complete_status [of demo "''foreach i in 1 2 {''" demo_kernel] h1 h2
  show ?thesis by simp
qed

section \<open>The reply of an execution\<close>

text \<open>
  Where the line-size probe is readable, \<^verbatim>\<open>do_execute\<close> returns a reply whose status
  follows the session's return code for the block: \<^verbatim>\<open>error\<close> with the
  \<^verbatim>\<open>execution_count\<close> for a nonzero code; \<^verbatim>\<open>ok\<close> with the \<^verbatim>\<open>execution_count\<close>,
  an empty \<^verbatim>\<open>payload\<close> list and an empty \<^verbatim>\<open>user_expressions\<close> dictionary for zero.
\<close>

lemma reply_status_from_return_code:
  assumes "fst (is_complete c code k)"
      and "\<not> truthy (quit_early c code k)"
      and "probe_readable lib c (before_hook c code k)"
  shows "fst (do_execute lib c code silent k) =
           (if block_rc c code k \<noteq> 0
            then Inr (PyDict [(''execution_count'', PyInt (execution_count k)),
                              (''status'', PyStr ''error'')])
            else Inr (PyDict [(''execution_count'', PyInt (execution_count k)),
                              (''status'', PyStr ''ok''),
                              (''payload'', PyList []),
                              (''user_expressions'', PyDict [])]))"
  by (simp add: do_execute_return(1) [OF assms(1,2) post_do_hook_returns [OF assms(3)]]
        return_obj_def)

text \<open>Where it is not readable, \<^verbatim>\<open>do_execute\<close> raises and returns no reply.\<close>

lemma no_reply_when_probe_unreadable:
  assumes "fst (is_complete c code k)"
      and "\<not> truthy (quit_early c code k)"
      and "\<not> probe_readable lib c (before_hook c code k)"
  shows "fst (do_execute lib c code silent k) = Inl ValueError"
proof -
  from assms(3) have "fst (post_do_hook lib c (before_hook c code k)) = Inl ValueError"
    by (simp add: post_do_hook_result probe_readable_def)
  from do_execute_raise [OF assms(1,2) this] show ?thesis by simp
qed

text \<open>
  C5. For every complete code block that no magic handles, \<^verbatim>\<open>do_execute\<close> maps the
  session's return code to the reply status: \<^verbatim>\<open>error\<close> for a nonzero code, \<^verbatim>\<open>ok\<close>
  with an empty payload and empty user expressions for zero. The code does not do this
  for every such block. Here the block \<^verbatim>\<open>di 1\<close> is complete, no magic handles it, the
  session returns 0 for it, and the probe comes back with return code 0 and an empty
  text: \<^verbatim>\<open>int\<close> raises \<^verbatim>\<open>ValueError\<close> in \<^verbatim>\<open>post_do_hook\<close> and \<^verbatim>\<open>do_execute\<close>
  ends with that exception instead of the reply with status \<^verbatim>\<open>ok\<close>.
\<close>

theorem do_execute_raises_on_unreadable_probe:
  "fst (is_complete demo_mute ''di 1'' demo_kernel) \<and>
   \<not> truthy (quit_early demo_mute ''di 1'' demo_kernel) \<and>
   block_rc demo_mute ''di 1'' demo_kernel = 0 \<and>
   probe_do demo_mute (before_hook demo_mute ''di 1'' demo_kernel) = (0, []) \<and>
   fst (do_execute demo_lib demo_mute ''di 1'' False demo_kernel) = Inl ValueError"
  by code_simp

section \<open>The line-size probe\<close>

text \<open>
  C6. Every execution of a complete code block that no magic handles calls the session
  once more after the block, on the plan of the probe \<^verbatim>\<open>di `c(linesize)'\<close> and with
  \<^verbatim>\<open>display=False\<close>: the first nine calls of \<^verbatim>\<open>do_execute\<close> are the six for the
  block and the three for the probe. The stored \<open>linesize\<close> afterwards is the integer read from the
  probe's captured text when the probe's return code is zero (and the text is an
  integer), and is unchanged when the return code is not zero. Hiding the probe from the
  transcript is what the session does with \<^verbatim>\<open>display=False\<close>; the kernel's part is to
  pass it.
\<close>

theorem linesize_probe_after_execution:
  assumes "fst (is_complete c code k)"
      and "\<not> truthy (quit_early c code k)"
  shows "take 9 (new_calls k (snd (do_execute lib c code silent k))) =
           [New_CodeManager code (Some (sc_delimit_mode k)), Magic code,
            New_CodeManager (fst (after_magic c code k)) (Some (sc_delimit_mode k)),
            Get_text (block_cm c code k), Stata_do (block_plan c code k) None,
            Magics_post,
            New_CodeManager linesize_probe None,
            Get_text (CodeManager c linesize_probe None),
            Stata_do (probe_plan c (before_hook c code k)) (Some False)] \<and>
         linesize (snd (do_execute lib c code silent k)) =
           (if fst (probe_do c (before_hook c code k)) = 0
            then (case builtin_int lib (str_strip lib (snd (probe_do c (before_hook c code k)))) of
                    None \<Rightarrow> linesize k
                  | Some n \<Rightarrow> n)
            else linesize k)"
proof (cases "fst (post_do_hook lib c (before_hook c code k))")
  case (Inl e)
  have "do_execute lib c code silent k = (Inl e, snd (post_do_hook lib c (before_hook c code k)))"
    using do_execute_raise [OF assms Inl] .
  then show ?thesis
    using post_do_hook_calls [of lib c "before_hook c code k"]
    by (simp add: new_calls_def before_hook_fields post_do_hook_linesize split: option.splits)
next
  case (Inr u)
  then have r: "fst (post_do_hook lib c (before_hook c code k)) = Inr ()" by simp
  show ?thesis
    by (simp add: do_execute_return(3,4) [OF assms r] new_calls_def post_do_hook_linesize
          before_hook_fields split: option.splits)
qed

theorem linesize_probe_after_execution_witness:
  "fst (is_complete demo ''di 1'' demo_kernel) \<and>
   \<not> truthy (quit_early demo ''di 1'' demo_kernel) \<and>
   take 9 (new_calls demo_kernel (snd (do_execute demo_lib demo ''di 1'' False demo_kernel))) =
     [New_CodeManager ''di 1'' (Some False), Magic ''di 1'',
      New_CodeManager ''di 1'' (Some False), Get_text (''di 1'', False),
      Stata_do ''di 1'' None, Magics_post,
      New_CodeManager linesize_probe None, Get_text (linesize_probe, False),
      Stata_do linesize_probe (Some False)] \<and>
   probe_do demo (before_hook demo ''di 1'' demo_kernel) = (0, '' 80'') \<and>
   linesize demo_kernel = 255 \<and>
   linesize (snd (do_execute demo_lib demo ''di 1'' False demo_kernel)) = 80"
proof -
  have b1: "fst (is_complete demo ''di 1'' demo_kernel)" by code_simp
  have b2: "\<not> truthy (quit_early demo ''di 1'' demo_kernel)" by code_simp
  have p: "probe_plan demo (before_hook demo ''di 1'' demo_kernel) = linesize_probe"
          "block_plan demo ''di 1'' demo_kernel = ''di 1''"
          "block_cm demo ''di 1'' demo_kernel = (''di 1'', False)"
          "fst (after_magic demo ''di 1'' demo_kernel) = ''di 1''"
          "CodeManager demo linesize_probe None = (linesize_probe, False)"
          "sc_delimit_mode demo_kernel = False"
    by code_simp+
  have d: "probe_do demo (before_hook demo ''di 1'' demo_kernel) = (0, '' 80'')" by code_simp
  have i: "builtin_int demo_lib (str_strip demo_lib '' 80'') = Some 80" by code_simp
  have l: "linesize demo_kernel = 255" by code_simp
  from linesize_probe_after_execution [OF b1 b2, of demo_lib False] b1 b2 p d i l
  show ?thesis by simp
qed

section \<open>A new kernel\<close>

text \<open>
  C8. A newly constructed kernel has \<open>sc_delimit_mode\<close> false, whatever the state of the
  collaborators: its first \<^verbatim>\<open>is_complete\<close> asks a \<^verbatim>\<open>CodeManager\<close> built in newline
  mode, and its first \<^verbatim>\<open>do_execute\<close> that reaches the splitter builds the block's
  \<^verbatim>\<open>CodeManager\<close> in newline mode.
\<close>

theorem init_newline_mode:
  fixes c :: "('w, 'cm, 'p) collab"
  shows
  "sc_delimit_mode (init w ls :: ('w, 'cm, 'p) kernel) = False \<and>
   fst (is_complete c code (init w ls)) = cm_is_complete c (CodeManager c code (Some False)) \<and>
   (fst (is_complete c code (init w ls)) \<and> \<not> truthy (quit_early c code (init w ls)) \<longrightarrow>
      block_cm c code (init w ls) = CodeManager c (fst (after_magic c code (init w ls))) (Some False) \<and>
      New_CodeManager (fst (after_magic c code (init w ls))) (Some False)
        \<in> set (calls (snd (do_execute lib c code silent (init w ls)))))"
proof -
  have m: "sc_delimit_mode (init w ls :: ('w, 'cm, 'p) kernel) = False"
    by (simp add: init_def)
  have "New_CodeManager (fst (after_magic c code (init w ls))) (Some False)
          \<in> set (calls (snd (do_execute lib c code silent (init w ls))))"
    if a: "fst (is_complete c code (init w ls))" "\<not> truthy (quit_early c code (init w ls))"
  proof (cases "fst (post_do_hook lib c (before_hook c code (init w ls)))")
    case (Inl e)
    show ?thesis
      using post_do_hook_calls [of lib c "before_hook c code (init w ls)"]
      by (simp add: do_execute_raise [OF a Inl] before_hook_fields m)
  next
    case (Inr u)
    then have r: "fst (post_do_hook lib c (before_hook c code (init w ls))) = Inr ()" by simp
    show ?thesis
      by (simp add: do_execute_return(4) [OF a r] m)
  qed
  then show ?thesis
    by (simp add: is_complete_fst block_cm_def m)
qed

theorem init_newline_mode_witness:
  "sc_delimit_mode (init PyNone 255 :: (pyval, string \<times> bool, string) kernel) = False \<and>
   fst (is_complete demo ''di 1'' (init PyNone 255)) \<and>
   \<not> truthy (quit_early demo ''di 1'' (init PyNone 255)) \<and>
   block_cm demo ''di 1'' (init PyNone 255) = (''di 1'', False) \<and>
   New_CodeManager ''di 1'' (Some False)
     \<in> set (calls (snd (do_execute demo_lib demo ''di 1'' False (init PyNone 255))))"
proof -
  have b1: "fst (is_complete demo ''di 1'' (init PyNone 255))" by code_simp
  have b2: "\<not> truthy (quit_early demo ''di 1'' (init PyNone 255))" by code_simp
  have c1: "fst (after_magic demo ''di 1'' (init PyNone 255)) = ''di 1''" by code_simp
  have c2: "CodeManager demo ''di 1'' (Some False) = (''di 1'', False)" by code_simp
  from init_newline_mode [of PyNone 255 demo "''di 1''" demo_lib False] b1 b2 c1 c2
  show ?thesis by simp
qed

section \<open>A block handled by a magic\<close>

text \<open>
  C9. When the block is complete and the magics set \<^verbatim>\<open>quit_early\<close>, \<^verbatim>\<open>do_execute\<close>
  returns that value at once: the calls it has made are the completeness check's
  \<^verbatim>\<open>CodeManager\<close> and the magic dispatcher, so the session is not called and no
  notice is sent, and \<open>sc_delimit_mode\<close> is what it was before the call.
\<close>

theorem magic_quits_early:
  assumes "fst (is_complete c code k)"
      and "truthy (quit_early c code k)"
  shows "fst (do_execute lib c code silent k) = Inr (quit_early c code k) \<and>
         new_calls k (snd (do_execute lib c code silent k)) =
           [New_CodeManager code (Some (sc_delimit_mode k)), Magic code] \<and>
         sc_delimit_mode (snd (do_execute lib c code silent k)) = sc_delimit_mode k"
  by (simp add: do_execute_quit [OF assms] after_magic_fields new_calls_def)

theorem magic_quits_early_witness:
  "fst (is_complete demo ''%head'' demo_kernel) \<and>
   truthy (quit_early demo ''%head'' demo_kernel) \<and>
   fst (do_execute demo_lib demo ''%head'' False demo_kernel) =
     Inr (PyDict [(''execution_count'', PyInt 1), (''status'', PyStr ''ok'')]) \<and>
   new_calls demo_kernel (snd (do_execute demo_lib demo ''%head'' False demo_kernel)) =
     [New_CodeManager ''%head'' (Some False), Magic ''%head''] \<and>
   sc_delimit_mode (snd (do_execute demo_lib demo ''%head'' False demo_kernel)) = False"
proof -
  have b1: "fst (is_complete demo ''%head'' demo_kernel)" by code_simp
  have b2: "truthy (quit_early demo ''%head'' demo_kernel)" by code_simp
  have q: "quit_early demo ''%head'' demo_kernel =
             PyDict [(''execution_count'', PyInt 1), (''status'', PyStr ''ok'')]" by code_simp
  have m: "sc_delimit_mode demo_kernel = False" by code_simp
  from magic_quits_early [OF b1 b2, of demo_lib False] b1 b2 q m show ?thesis by simp
qed

section \<open>Sending an image\<close>

lemma send_image_calls:
  "calls (snd (send_image lib graph_path k)) = calls k \<or>
   (\<exists>content. calls (snd (send_image lib graph_path k)) =
                 calls k @ [Send_response ''display_data'' content] \<and>
               (endswith graph_path ''.svg'' \<or> endswith graph_path ''.png'' \<or>
                endswith graph_path ''.pdf''))"
  by (simp add: send_image_def send_response_def Let_def case_prod_beta
           split: sum.splits)

text \<open>
  C10. \<^verbatim>\<open>send_image\<close> sends at most one response per call, always of type
  \<^verbatim>\<open>display_data\<close>, and only for a path ending in \<^verbatim>\<open>.svg\<close>, \<^verbatim>\<open>.png\<close> or
  \<^verbatim>\<open>.pdf\<close>; for any other path it sends nothing, changes nothing and returns without
  raising.
\<close>

theorem send_image_at_most_one_display_data:
  "length (new_calls k (snd (send_image lib graph_path k))) \<le> 1 \<and>
   (\<forall>ev \<in> set (new_calls k (snd (send_image lib graph_path k))). is_display_data ev) \<and>
   (new_calls k (snd (send_image lib graph_path k)) \<noteq> [] \<longrightarrow>
      endswith graph_path ''.svg'' \<or> endswith graph_path ''.png'' \<or>
      endswith graph_path ''.pdf'') \<and>
   (\<not> endswith graph_path ''.svg'' \<and> \<not> endswith graph_path ''.png'' \<and>
    \<not> endswith graph_path ''.pdf'' \<longrightarrow>
      send_image lib graph_path k = (Inr (), k))"
proof -
  have last: "send_image lib graph_path k = (Inr (), k)"
    if "\<not> endswith graph_path ''.svg''" "\<not> endswith graph_path ''.png''"
       "\<not> endswith graph_path ''.pdf''"
    using that by (simp add: send_image_def)
  from send_image_calls [of lib graph_path k] last show ?thesis
    by (auto simp: new_calls_def)
qed

theorem send_image_at_most_one_display_data_witness:
  "endswith ''graph0.svg'' ''.svg'' \<and>
   new_calls demo_kernel (snd (send_image demo_lib ''graph0.svg'' demo_kernel)) =
     [Send_response ''display_data''
        (PyDict
          [(''data'', PyDict [(''text/plain'', PyStr no_display_msg),
                              (''image/svg+xml'', PyStr ''<svg/>'')]),
           (''metadata'', PyDict [(''image/svg+xml'',
               PyDict [(''width'', PyInt 600), (''height'', PyInt 436)])])])] \<and>
   \<not> endswith ''graph2.tif'' ''.svg'' \<and> \<not> endswith ''graph2.tif'' ''.png'' \<and>
   \<not> endswith ''graph2.tif'' ''.pdf'' \<and>
   send_image demo_lib ''graph2.tif'' demo_kernel = (Inr (), demo_kernel)"
proof -
  have s: "new_calls demo_kernel (snd (send_image demo_lib ''graph0.svg'' demo_kernel)) =
     [Send_response ''display_data''
        (PyDict
          [(''data'', PyDict [(''text/plain'', PyStr no_display_msg),
                              (''image/svg+xml'', PyStr ''<svg/>'')]),
           (''metadata'', PyDict [(''image/svg+xml'',
               PyDict [(''width'', PyInt 600), (''height'', PyInt 436)])])])]"
    by code_simp
  have e: "endswith ''graph0.svg'' ''.svg''" by code_simp
  have t: "\<not> endswith ''graph2.tif'' ''.svg''" "\<not> endswith ''graph2.tif'' ''.png''"
          "\<not> endswith ''graph2.tif'' ''.pdf''" by code_simp+
  from send_image_at_most_one_display_data [of demo_kernel demo_lib "''graph0.svg''"]
       send_image_at_most_one_display_data [of demo_kernel demo_lib "''graph2.tif''"] s e t
  show ?thesis by simp
qed

section \<open>Completeness and appended whitespace\<close>




















end
